theory Spec2Isabelle
  imports Main
begin

section \<open>Strings, bcrypt and the signer\<close>

text \<open>
  The source tree holds two snapshots of the user service and of the user schema. One of
  them adds two required name fields (firstName, lastName), which it reads from the DTO
  and copies through; the only \<open>AuthService\<close> and \<open>CreateUserDto\<close> in the tree never
  supply them. The model follows the other snapshot, whose calls match \<open>AuthService\<close>,
  \<open>CreateUserDto\<close> and \<open>UserWithoutPassword\<close> as they stand in the tree. The fields
  Mongoose maintains by itself (createdAt, updatedAt, the version key) are outside the
  model, and so is the shape validation of the DTOs.
\<close>

text \<open>
  Modelled from the spec: bcrypt, an external library the sources only call, is the spec's
  one-way hash. Its outputs are kept symbolic: \<open>BcryptHash cost salt d\<close> is the hash string
  bcrypt returns for the input it read, \<open>d\<close>, under the given cost and salt; every other
  string is a \<open>Str\<close>. Two hashes are equal only when cost, salt and the input read are
  equal, and no hash is the input it was computed from. As the library documents, bcrypt
  reads the first 72 bytes of its input only; a hash string is 60 bytes long and is read
  whole.
\<close>

datatype jstr = Str string | BcryptHash nat nat jstr

fun bcrypt_input :: "jstr \<Rightarrow> jstr" where
  "bcrypt_input (Str s) = Str (take 72 s)"
| "bcrypt_input (BcryptHash c s d) = BcryptHash c s d"

text \<open>\<open>bcrypt.hash(data, saltRounds)\<close>; the third argument is the salt the library draws.\<close>

definition bcrypt_hash :: "jstr \<Rightarrow> nat \<Rightarrow> nat \<Rightarrow> jstr" where
  "bcrypt_hash data saltRounds salt = BcryptHash saltRounds salt (bcrypt_input data)"

text \<open>\<open>bcrypt.compare(data, encrypted)\<close>: hash \<open>data\<close> again under the salt and cost
  stored in \<open>encrypted\<close> and compare; a string that is no hash matches nothing.\<close>

fun bcrypt_compare :: "jstr \<Rightarrow> jstr \<Rightarrow> bool" where
  "bcrypt_compare data (BcryptHash c s d) = (bcrypt_hash data c s = BcryptHash c s d)"
| "bcrypt_compare data (Str e) = False"

text \<open>JavaScript truthiness of an optional string: undefined, null and the empty string
  are falsy. \<open>None\<close> stands for both undefined and null.\<close>

fun js_truthy :: "jstr option \<Rightarrow> bool" where
  "js_truthy None = False"
| "js_truthy (Some (Str s)) = (s \<noteq> [])"
| "js_truthy (Some (BcryptHash c s d)) = True"

text \<open>\<open>a || b\<close> on an optional string.\<close>

definition js_or :: "string option \<Rightarrow> string \<Rightarrow> string" where
  "js_or a b = (case a of None \<Rightarrow> b | Some s \<Rightarrow> if s = [] then b else s)"

section \<open>Data model\<close>

datatype UserRole = ADMIN | USER | MODERATOR

text \<open>A user document. \<open>oid\<close> is \<open>_id\<close> (an ObjectId and its string form are identified,
  and every id is a well-formed one); \<open>password = None\<close> is a document loaded without that
  path.\<close>

record User =
  oid :: nat
  email :: string
  password :: "jstr option"
  refreshToken :: "jstr option"
  role :: UserRole
  isActive :: bool

record UserWithoutPassword =
  v_id :: nat
  v_email :: string
  v_role :: UserRole
  v_isActive :: bool
  v_refreshToken :: "jstr option"

record CreateUserDto =
  cu_email :: string
  cu_password :: jstr
  cu_role :: "UserRole option"

text \<open>RegisterDto and LoginDto: the two fields the service reads.\<close>

record CredentialsDto =
  dto_email :: string
  dto_password :: jstr

record JwtPayload =
  sub :: nat
  pl_email :: string
  pl_role :: UserRole

record AuthenticatedUser =
  userId :: nat
  au_email :: string
  au_role :: UserRole

record JwtSignOptions =
  secret :: string
  expiresIn :: string

record Tokens =
  accessToken :: jstr
  refreshToken' :: jstr

record PublicUser =
  pu_id :: nat
  pu_email :: string
  pu_role :: UserRole

record AuthResult =
  res_user :: PublicUser
  res_tokens :: Tokens

text \<open>Exceptions. \<open>HttpException status name message\<close> is Nest's HTTP exception class and
  its subclasses; \<open>JsError\<close> is a plain JavaScript \<open>Error\<close>; \<open>ValidationError\<close> is what
  Mongoose raises when a document fails the validators of its schema; \<open>MongoServerError\<close>
  is what the driver raises.\<close>

datatype exn = HttpException nat string string | JsError string | ValidationError string
  | MongoServerError string

definition ConflictException :: "string \<Rightarrow> exn" where
  "ConflictException msg = HttpException 409 ''ConflictException'' msg"

definition UnauthorizedException :: "string \<Rightarrow> exn" where
  "UnauthorizedException msg = HttpException 401 ''UnauthorizedException'' msg"

section \<open>Configuration (auth.config.ts)\<close>

record Env =
  ACCESS_TOKEN_SECRET :: "string option"
  ACCESS_TOKEN_EXPIRATION :: "string option"
  REFRESH_TOKEN_SECRET :: "string option"
  REFRESH_TOKEN_EXPIRATION :: "string option"

record JwtConfig =
  accessTokenSecret :: string
  accessTokenExpiration :: string
  refreshTokenSecret :: string
  refreshTokenExpiration :: string

definition authConfig :: "Env \<Rightarrow> JwtConfig" where
  "authConfig env =
    \<lparr> accessTokenSecret = js_or (ACCESS_TOKEN_SECRET env) ''default_access_token_secret'',
      accessTokenExpiration = js_or (ACCESS_TOKEN_EXPIRATION env) ''15m'',
      refreshTokenSecret = js_or (REFRESH_TOKEN_SECRET env) ''default_refresh_token_secret'',
      refreshTokenExpiration = js_or (REFRESH_TOKEN_EXPIRATION env) ''7d'' \<rparr>"

section \<open>The collection and the Mongoose model\<close>

text \<open>The users collection in insertion order. A query by a key returns the first match.\<close>

type_synonym store = "User list"

definition Model_findOne_email :: "store \<Rightarrow> string \<Rightarrow> User option" where
  "Model_findOne_email st e = find (\<lambda>u. email u = e) st"

definition Model_findById :: "store \<Rightarrow> nat \<Rightarrow> User option" where
  "Model_findById st i = find (\<lambda>u. oid u = i) st"

text \<open>\<open>findByIdAndUpdate\<close>: updates the document with that id; no match changes nothing
  and raises nothing.\<close>

fun Model_findByIdAndUpdate :: "store \<Rightarrow> nat \<Rightarrow> (User \<Rightarrow> User) \<Rightarrow> store" where
  "Model_findByIdAndUpdate [] i f = []"
| "Model_findByIdAndUpdate (u # us) i f =
     (if oid u = i then f u # us else u # Model_findByIdAndUpdate us i f)"

text \<open>\<open>.select('-password')\<close>.\<close>

definition select_minus_password :: "User \<Rightarrow> User" where
  "select_minus_password u = u\<lparr>password := None\<rparr>"

text \<open>The pre-save hook of the schema: hash the password when that path was modified.\<close>

definition UserSchema_pre_save :: "nat \<Rightarrow> bool \<Rightarrow> User \<Rightarrow> User" where
  "UserSchema_pre_save salt isModified_password this =
     (if \<not> isModified_password then this
      else this\<lparr>password := map_option (\<lambda>p. bcrypt_hash p 10 salt) (password this)\<rparr>)"

text \<open>The schema declares \<open>email\<close> and \<open>password\<close> with \<open>required: true\<close>. For a string path
  Mongoose's required validator refuses undefined, null and the empty string. (\<open>role\<close> is
  an enum path; every value of \<open>UserRole\<close> passes.)\<close>

definition UserSchema_validate :: "User \<Rightarrow> bool" where
  "UserSchema_validate doc = (email doc \<noteq> [] \<and> js_truthy (password doc))"

text \<open>\<open>save()\<close> of a new document: validation runs first and stores nothing when it fails;
  then the hook (every path of a new document counts as modified), then the insert, which
  the unique indexes on \<open>_id\<close> and \<open>email\<close> can refuse.\<close>

definition Document_save :: "nat \<Rightarrow> User \<Rightarrow> store \<Rightarrow> exn + (User \<times> store)" where
  "Document_save salt doc st =
     (if \<not> UserSchema_validate doc then Inl (ValidationError ''User validation failed'')
      else
        (let saved = UserSchema_pre_save salt True doc in
         if list_ex (\<lambda>u. oid u = oid saved \<or> email u = email saved) st
         then Inl (MongoServerError ''E11000 duplicate key error'')
         else Inr (saved, st @ [saved])))"

text \<open>\<open>comparePassword\<close>, the schema method. Every caller runs it on a document loaded with
  its password. On a document without that path bcrypt would throw; such a document
  never reaches the method, and the model answers \<open>False\<close> there.\<close>

definition comparePassword :: "User \<Rightarrow> jstr \<Rightarrow> bool" where
  "comparePassword this candidatePassword =
     (case password this of None \<Rightarrow> False
      | Some h \<Rightarrow> bcrypt_compare candidatePassword h)"

section \<open>UserService\<close>

text \<open>The object every projection builds after dropping \<open>password\<close>.\<close>

definition without_password :: "User \<Rightarrow> UserWithoutPassword" where
  "without_password userObject =
     \<lparr> v_id = oid userObject, v_email = email userObject, v_role = role userObject,
       v_isActive = isActive userObject, v_refreshToken = refreshToken userObject \<rparr>"

text \<open>\<open>createUser\<close>. The two leading arguments are what the run supplies: the salt bcrypt
  draws in the pre-save hook and the ObjectId the driver gives the new document.\<close>

definition UserService_createUser ::
  "nat \<Rightarrow> nat \<Rightarrow> CreateUserDto \<Rightarrow> store \<Rightarrow> (exn + UserWithoutPassword) \<times> store" where
  "UserService_createUser salt new_id createUserDto st =
     (case Model_findOne_email st (cu_email createUserDto) of
        Some existingUser \<Rightarrow> (Inl (ConflictException ''User with this email already exists''), st)
      | None \<Rightarrow>
         (let createdUser =
            \<lparr> oid = new_id, email = cu_email createUserDto,
              password = Some (cu_password createUserDto), refreshToken = None,
              role = (case cu_role createUserDto of None \<Rightarrow> USER | Some r \<Rightarrow> r),
              isActive = True \<rparr>
          in case Document_save salt createdUser st of
               Inl e \<Rightarrow> (Inl e, st)
             | Inr (savedUser, st') \<Rightarrow> (Inr (without_password savedUser), st')))"

definition UserService_findByEmail :: "store \<Rightarrow> string \<Rightarrow> User option" where
  "UserService_findByEmail st e = Model_findOne_email st e"

definition UserService_findById :: "store \<Rightarrow> nat \<Rightarrow> UserWithoutPassword option" where
  "UserService_findById st i =
     (case map_option select_minus_password (Model_findById st i) of
        None \<Rightarrow> None
      | Some user \<Rightarrow> Some (without_password user))"

definition UserService_findOne :: "store \<Rightarrow> nat \<Rightarrow> User option" where
  "UserService_findOne st i = Model_findById st i"

text \<open>\<open>.select('+password')\<close> adds a path the schema hides by default; the schema hides
  none, so the query returns the document as stored.\<close>

definition UserService_findByEmailWithPassword :: "store \<Rightarrow> string \<Rightarrow> User option" where
  "UserService_findByEmailWithPassword st e = Model_findOne_email st e"

definition UserService_updateRefreshToken :: "nat \<Rightarrow> nat \<Rightarrow> jstr \<Rightarrow> store \<Rightarrow> store" where
  "UserService_updateRefreshToken salt uid rtoken st =
     (let hashedRefreshToken = bcrypt_hash rtoken 10 salt
      in Model_findByIdAndUpdate st uid (\<lambda>u. u\<lparr>refreshToken := Some hashedRefreshToken\<rparr>))"

definition UserService_removeRefreshToken :: "nat \<Rightarrow> store \<Rightarrow> store" where
  "UserService_removeRefreshToken uid st =
     Model_findByIdAndUpdate st uid (\<lambda>u. u\<lparr>refreshToken := None\<rparr>)"

definition UserService_findAll :: "store \<Rightarrow> UserWithoutPassword list" where
  "UserService_findAll st = map (\<lambda>user. without_password (select_minus_password user)) st"

section \<open>AuthService\<close>

text \<open>The service's injected dependencies: the signer (\<open>jwtService.signAsync\<close>, an external
  library, taken as a parameter; its last argument is the clock) and the loaded
  configuration.\<close>

record AuthService =
  jwtService :: "JwtPayload \<Rightarrow> JwtSignOptions \<Rightarrow> nat \<Rightarrow> jstr"
  configService :: JwtConfig

text \<open>What the environment supplies during one call: the clock, the ObjectId the driver
  generates for a new document, and the salts bcrypt draws, numbered in call order.\<close>

record Runtime =
  now :: nat
  new_ObjectId :: nat
  salts :: "nat \<Rightarrow> nat"

definition AuthService_generateAccessToken ::
  "AuthService \<Rightarrow> nat \<Rightarrow> nat \<Rightarrow> string \<Rightarrow> UserRole \<Rightarrow> jstr" where
  "AuthService_generateAccessToken svc clock uid e r =
     (let payload = \<lparr> sub = uid, pl_email = e, pl_role = r \<rparr>
      in jwtService svc payload
           \<lparr> secret = accessTokenSecret (configService svc),
             expiresIn = js_or (Some (accessTokenExpiration (configService svc))) ''15m'' \<rparr>
           clock)"

definition AuthService_generateRefreshToken ::
  "AuthService \<Rightarrow> nat \<Rightarrow> nat \<Rightarrow> string \<Rightarrow> UserRole \<Rightarrow> jstr" where
  "AuthService_generateRefreshToken svc clock uid e r =
     (let payload = \<lparr> sub = uid, pl_email = e, pl_role = r \<rparr>
      in jwtService svc payload
           \<lparr> secret = refreshTokenSecret (configService svc),
             expiresIn = js_or (Some (refreshTokenExpiration (configService svc))) ''7d'' \<rparr>
           clock)"

definition AuthService_generateTokens ::
  "AuthService \<Rightarrow> nat \<Rightarrow> nat \<Rightarrow> string \<Rightarrow> UserRole \<Rightarrow> Tokens" where
  "AuthService_generateTokens svc clock uid e r =
     \<lparr> accessToken = AuthService_generateAccessToken svc clock uid e r,
       refreshToken' = AuthService_generateRefreshToken svc clock uid e r \<rparr>"

text \<open>The private \<open>updateRefreshToken\<close>: it hashes the token and hands the hash to the
  user service, which hashes what it is given.\<close>

definition AuthService_updateRefreshToken :: "nat \<Rightarrow> nat \<Rightarrow> nat \<Rightarrow> jstr \<Rightarrow> store \<Rightarrow> store" where
  "AuthService_updateRefreshToken salt1 salt2 uid rtoken st =
     (let hashedRefreshToken = bcrypt_hash rtoken 10 salt1
      in UserService_updateRefreshToken salt2 uid hashedRefreshToken st)"

definition AuthService_register ::
  "AuthService \<Rightarrow> Runtime \<Rightarrow> CredentialsDto \<Rightarrow> store \<Rightarrow> (exn + AuthResult) \<times> store" where
  "AuthService_register svc rt registerDto st =
     (case UserService_findByEmail st (dto_email registerDto) of
        Some existingUser \<Rightarrow> (Inl (ConflictException ''User with this email already exists''), st)
      | None \<Rightarrow>
         (case UserService_createUser (salts rt 0) (new_ObjectId rt)
                 \<lparr> cu_email = dto_email registerDto, cu_password = dto_password registerDto,
                   cu_role = None \<rparr> st of
            (Inl e, st1) \<Rightarrow> (Inl e, st1)
          | (Inr user, st1) \<Rightarrow>
             (let tokens = AuthService_generateTokens svc (now rt) (v_id user) (v_email user) (v_role user);
                  st2 = AuthService_updateRefreshToken (salts rt 1) (salts rt 2) (v_id user)
                          (refreshToken' tokens) st1
              in (Inr \<lparr> res_user = \<lparr> pu_id = v_id user, pu_email = v_email user,
                                      pu_role = v_role user \<rparr>,
                        res_tokens = tokens \<rparr>, st2))))"

definition AuthService_login ::
  "AuthService \<Rightarrow> Runtime \<Rightarrow> CredentialsDto \<Rightarrow> store \<Rightarrow> (exn + AuthResult) \<times> store" where
  "AuthService_login svc rt loginDto st =
     (case UserService_findByEmailWithPassword st (dto_email loginDto) of
        None \<Rightarrow> (Inl (UnauthorizedException ''Invalid credentials''), st)
      | Some user \<Rightarrow>
         if \<not> comparePassword user (dto_password loginDto)
         then (Inl (UnauthorizedException ''Invalid credentials''), st)
         else
           (let tokens = AuthService_generateTokens svc (now rt) (oid user) (email user) (role user);
                st1 = AuthService_updateRefreshToken (salts rt 0) (salts rt 1) (oid user)
                        (refreshToken' tokens) st
            in (Inr \<lparr> res_user = \<lparr> pu_id = oid user, pu_email = email user,
                                    pu_role = role user \<rparr>,
                      res_tokens = tokens \<rparr>, st1)))"

definition AuthService_logout :: "nat \<Rightarrow> store \<Rightarrow> (exn + string) \<times> store" where
  "AuthService_logout uid st =
     (Inr ''Logged out successfully'', UserService_removeRefreshToken uid st)"

definition AuthService_refreshTokens ::
  "AuthService \<Rightarrow> Runtime \<Rightarrow> nat \<Rightarrow> jstr \<Rightarrow> store \<Rightarrow> (exn + Tokens) \<times> store" where
  "AuthService_refreshTokens svc rt uid presented st =
     (case UserService_findOne st uid of
        None \<Rightarrow> (Inl (UnauthorizedException ''Access denied''), st)
      | Some user \<Rightarrow>
         if \<not> js_truthy (refreshToken user)
         then (Inl (UnauthorizedException ''Access denied''), st)
         else if \<not> bcrypt_compare presented (the (refreshToken user))
         then (Inl (UnauthorizedException ''Invalid refresh token''), st)
         else
           (let tokens = AuthService_generateTokens svc (now rt) (oid user) (email user) (role user);
                st1 = AuthService_updateRefreshToken (salts rt 0) (salts rt 1) (oid user)
                        (refreshToken' tokens) st
            in (Inr tokens, st1)))"

section \<open>Passport strategies\<close>

definition LocalStrategy_validate :: "store \<Rightarrow> string \<Rightarrow> jstr \<Rightarrow> exn + UserWithoutPassword" where
  "LocalStrategy_validate st e pw =
     (case UserService_findByEmailWithPassword st e of
        None \<Rightarrow> Inl (UnauthorizedException ''Invalid credentials'')
      | Some user \<Rightarrow>
         if \<not> comparePassword user pw
         then Inl (UnauthorizedException ''Invalid credentials'')
         else Inr (without_password user))"

text \<open>The two JWT strategies run after passport has checked the token's signature and
  expiry; \<open>validate\<close> receives the decoded payload of a token that passed.\<close>

definition AccessTokenStrategy_validate :: "store \<Rightarrow> JwtPayload \<Rightarrow> exn + AuthenticatedUser" where
  "AccessTokenStrategy_validate st payload =
     (case UserService_findById st (sub payload) of
        None \<Rightarrow> Inl (JsError ''User not found or inactive'')
      | Some user \<Rightarrow>
         if \<not> v_isActive user then Inl (JsError ''User not found or inactive'')
         else Inr \<lparr> userId = sub payload, au_email = pl_email payload,
                    au_role = pl_role payload \<rparr>)"

definition RefreshTokenStrategy_validate :: "store \<Rightarrow> JwtPayload \<Rightarrow> exn + AuthenticatedUser" where
  "RefreshTokenStrategy_validate st payload =
     (case UserService_findOne st (sub payload) of
        None \<Rightarrow> Inl (JsError ''User not found or inactive'')
      | Some user \<Rightarrow>
         if \<not> isActive user then Inl (JsError ''User not found or inactive'')
         else if \<not> js_truthy (refreshToken user) then Inl (JsError ''Refresh token not found'')
         else Inr \<lparr> userId = sub payload, au_email = pl_email payload,
                    au_role = pl_role payload \<rparr>)"

section \<open>Responses, the exception filter and the cookies\<close>

record Cookie =
  ck_name :: string
  ck_value :: jstr
  ck_httpOnly :: bool
  ck_secure :: bool
  ck_maxAge :: nat
  ck_sameSite :: string
  ck_path :: string

text \<open>The JSON the filter writes. \<open>error\<close> (with the stack trace, which is not modelled)
  is present outside production only.\<close>

record ErrorEnvelope =
  statusCode :: nat
  timestamp :: nat
  path :: string
  message :: string
  error :: "string option"

datatype Body = Envelope ErrorEnvelope | InternalServerError | LoginSuccessful AuthResult

record Response =
  status :: nat
  cookies :: "Cookie list"
  json :: Body

text \<open>\<open>HttpExceptionFilter.catch\<close>. The class is decorated \<open>@Catch(HttpException)\<close>: the
  framework hands it instances of that class only, which is the \<open>None\<close> here.\<close>

fun HttpExceptionFilter_catch :: "exn \<Rightarrow> string \<Rightarrow> nat \<Rightarrow> bool \<Rightarrow> Response option" where
  "HttpExceptionFilter_catch (HttpException st nm msg) url clock production =
     Some \<lparr> status = st, cookies = [],
            json = Envelope \<lparr> statusCode = st, timestamp = clock, path = url,
                              message = js_or (Some msg) msg,
                              error = (if production then None else Some nm) \<rparr> \<rparr>"
| "HttpExceptionFilter_catch (JsError msg) url clock production = None"
| "HttpExceptionFilter_catch (ValidationError msg) url clock production = None"
| "HttpExceptionFilter_catch (MongoServerError msg) url clock production = None"

text \<open>Modelled from the spec: the exception layer of the framework, which is not part of
  the sources. A guard or handler that throws ends the request there; an exception the
  registered filter does not catch is answered by the framework itself with status 500
  and the body \<open>{statusCode: 500, message: 'Internal server error'}\<close> (the spec: such
  errors propagate as 500s).\<close>

definition exception_response :: "exn \<Rightarrow> string \<Rightarrow> nat \<Rightarrow> bool \<Rightarrow> Response" where
  "exception_response e url clock production =
     (case HttpExceptionFilter_catch e url clock production of
        Some r \<Rightarrow> r
      | None \<Rightarrow> \<lparr> status = 500, cookies = [], json = InternalServerError \<rparr>)"

definition setAuthCookies :: "Cookie list \<Rightarrow> jstr \<Rightarrow> jstr \<Rightarrow> bool \<Rightarrow> Cookie list" where
  "setAuthCookies res access refresh isSecure =
     (let accessTokenMaxAge = 15 * 60 * 1000;
          refreshTokenMaxAge = 7 * 24 * 60 * 60 * 1000
      in res @
         [\<lparr> ck_name = ''access_token'', ck_value = access, ck_httpOnly = True,
            ck_secure = isSecure, ck_maxAge = accessTokenMaxAge, ck_sameSite = ''strict'',
            ck_path = ''/'' \<rparr>,
          \<lparr> ck_name = ''refresh_token'', ck_value = refresh, ck_httpOnly = True,
            ck_secure = isSecure, ck_maxAge = refreshTokenMaxAge, ck_sameSite = ''strict'',
            ck_path = ''/'' \<rparr>])"

text \<open>\<open>POST /auth/login\<close>. The local guard (its class is not in the sources; it is
  passport's guard for the local strategy) runs \<open>LocalStrategy.validate\<close> on the
  credentials of the body before the handler; an exception there ends the request in the
  exception layer and the handler never runs. The handler calls the service's \<open>login\<close>,
  sets the two cookies from the result and answers 200. The handler in the tree belongs
  to the snapshot with the name fields and hands \<open>login\<close> the guard's user object; the
  model hands it the credentials DTO that the \<open>login\<close> of the tree takes. The two differ
  on the path after a successful guard only. (A body without email or password is refused by passport before
  \<open>validate\<close>, with the same 401.)\<close>

definition AuthController_login ::
  "AuthService \<Rightarrow> Runtime \<Rightarrow> bool \<Rightarrow> CredentialsDto \<Rightarrow> store \<Rightarrow> Response \<times> store" where
  "AuthController_login svc rt production loginDto st =
     (case LocalStrategy_validate st (dto_email loginDto) (dto_password loginDto) of
        Inl e \<Rightarrow> (exception_response e ''/auth/login'' (now rt) production, st)
      | Inr user \<Rightarrow>
         (case AuthService_login svc rt loginDto st of
            (Inl e, st1) \<Rightarrow> (exception_response e ''/auth/login'' (now rt) production, st1)
          | (Inr result, st1) \<Rightarrow>
             (\<lparr> status = 200,
                cookies = setAuthCookies [] (accessToken (res_tokens result))
                            (refreshToken' (res_tokens result)) production,
                json = LoginSuccessful result \<rparr>, st1)))"

section \<open>Values for concrete runs\<close>

text \<open>A signer, a service and an environment to run the model on examples.\<close>

definition sample_signAsync :: "JwtPayload \<Rightarrow> JwtSignOptions \<Rightarrow> nat \<Rightarrow> jstr" where
  "sample_signAsync payload opts clock =
     Str (''jwt:'' @ pl_email payload @ '':'' @ secret opts @ '':'' @ expiresIn opts)"

definition sample_env :: Env where
  "sample_env = \<lparr> ACCESS_TOKEN_SECRET = None, ACCESS_TOKEN_EXPIRATION = None,
                   REFRESH_TOKEN_SECRET = None, REFRESH_TOKEN_EXPIRATION = None \<rparr>"

definition sample_service :: AuthService where
  "sample_service = \<lparr> jwtService = sample_signAsync, configService = authConfig sample_env \<rparr>"

definition sample_runtime :: Runtime where
  "sample_runtime = \<lparr> now = 0, new_ObjectId = 1, salts = (\<lambda>n. n) \<rparr>"

definition alice :: User where
  "alice = \<lparr> oid = 1, email = ''a@x.com'',
             password = Some (BcryptHash 10 0 (Str ''secret1'')),
             refreshToken = None, role = USER, isActive = True \<rparr>"

definition alice_logged_in :: User where
  "alice_logged_in = alice\<lparr>refreshToken := Some (BcryptHash 10 2 (BcryptHash 10 1
                 (Str ''jwt:a@x.com:default_refresh_token_secret:7d'')))\<rparr>"

text \<open>Two passwords of 73 bytes that differ in the last byte only, and the document a
  registration with the first one stores.\<close>

definition long_password_1 :: jstr where
  "long_password_1 = Str (replicate 72 CHR ''a'' @ ''1'')"

definition long_password_2 :: jstr where
  "long_password_2 = Str (replicate 72 CHR ''a'' @ ''2'')"

definition long_password_user :: User where
  "long_password_user =
     \<lparr> oid = 1, email = ''a@x.com'',
       password = Some (BcryptHash 10 0 (Str (replicate 72 CHR ''a''))),
       refreshToken = Some (BcryptHash 10 2 (BcryptHash 10 1
                        (Str ''jwt:a@x.com:default_refresh_token_secret:7d''))),
       role = USER, isActive = True \<rparr>"

text \<open>An environment that gives both secrets the same value.\<close>

definition shared_secret_env :: Env where
  "shared_secret_env = \<lparr> ACCESS_TOKEN_SECRET = Some ''k'', ACCESS_TOKEN_EXPIRATION = None,
                         REFRESH_TOKEN_SECRET = Some ''k'', REFRESH_TOKEN_EXPIRATION = None \<rparr>"

text \<open>An environment that sets the access secret to the default of the refresh secret and
  leaves the refresh secret unset, and one that sets both secrets to the empty string.\<close>

definition crossed_default_env :: Env where
  "crossed_default_env =
     \<lparr> ACCESS_TOKEN_SECRET = Some ''default_refresh_token_secret'',
       ACCESS_TOKEN_EXPIRATION = None,
       REFRESH_TOKEN_SECRET = None, REFRESH_TOKEN_EXPIRATION = None \<rparr>"

definition empty_secret_env :: Env where
  "empty_secret_env = \<lparr> ACCESS_TOKEN_SECRET = Some [], ACCESS_TOKEN_EXPIRATION = None,
                        REFRESH_TOKEN_SECRET = Some [], REFRESH_TOKEN_EXPIRATION = None \<rparr>"

section \<open>Facts about the library model and the collection\<close>

lemma hash_neq_plain: "bcrypt_hash p r s \<noteq> p"
  by (cases p) (simp_all add: bcrypt_hash_def)

lemma compare_hash_iff:
  "bcrypt_compare c (bcrypt_hash p r s) = (bcrypt_input c = bcrypt_input p)"
  by (simp add: bcrypt_hash_def)

text \<open>A token never matches the hash of its own hash.\<close>

lemma double_hash_never_matches:
  "\<not> bcrypt_compare t (bcrypt_hash (bcrypt_hash t c1 s1) c2 s2)"
  by (cases t) (simp_all add: bcrypt_hash_def)

lemma js_truthy_hash: "js_truthy (Some (bcrypt_hash p r s))"
  by (simp add: bcrypt_hash_def)

lemma js_truthy_Some: "js_truthy (Some p) = (p \<noteq> Str [])"
  by (cases p) simp_all

lemma find_append:
  "find P (xs @ ys) = (case find P xs of None \<Rightarrow> find P ys | Some x \<Rightarrow> Some x)"
  by (induction xs) auto

lemma find_None_list_ex: "(find P xs = None) = (\<not> list_ex P xs)"
  by (induction xs) auto

lemma list_ex_disj: "list_ex (\<lambda>u. P u \<or> Q u) xs = (list_ex P xs \<or> list_ex Q xs)"
  by (induction xs) auto

lemma update_append_fresh:
  "\<not> list_ex (\<lambda>u. oid u = i) st \<Longrightarrow>
   Model_findByIdAndUpdate (st @ us) i f = st @ Model_findByIdAndUpdate us i f"
  by (induction st) auto

lemma findById_update:
  "(\<And>u. oid (f u) = oid u) \<Longrightarrow>
   Model_findById (Model_findByIdAndUpdate st i f) i = map_option f (Model_findById st i)"
  unfolding Model_findById_def by (induction st) auto

lemma update_idem:
  "(\<And>u. oid (f u) = oid u) \<Longrightarrow> (\<And>u. f (f u) = f u) \<Longrightarrow>
   Model_findByIdAndUpdate (Model_findByIdAndUpdate st i f) i f = Model_findByIdAndUpdate st i f"
  by (induction st) auto

text \<open>What a successful registration leaves in the collection: one document appended,
  with the hashed password and, as refresh-token field, the hash of the hash of the
  refresh token it returned.\<close>

lemma register_success:
  assumes "AuthService_register svc rt d st = (Inr res, st')"
  shows "\<exists>u. st' = st @ [u] \<and> oid u = new_ObjectId rt \<and> email u = dto_email d
           \<and> password u = Some (bcrypt_hash (dto_password d) 10 (salts rt 0))
           \<and> refreshToken u =
               Some (bcrypt_hash (bcrypt_hash (refreshToken' (res_tokens res)) 10 (salts rt 1))
                       10 (salts rt 2))
           \<and> role u = USER \<and> isActive u
           \<and> pu_id (res_user res) = new_ObjectId rt
           \<and> \<not> list_ex (\<lambda>u. oid u = new_ObjectId rt \<or> email u = dto_email d) st"
  using assms
  by (auto simp: AuthService_register_def UserService_findByEmail_def UserService_createUser_def
      Model_findOne_email_def Document_save_def UserSchema_pre_save_def without_password_def
      AuthService_updateRefreshToken_def UserService_updateRefreshToken_def Let_def
      update_append_fresh find_None_list_ex list_ex_disj
      split: option.splits sum.splits if_splits prod.splits)

lemmas sample_defs = sample_service_def sample_runtime_def sample_env_def sample_signAsync_def
  authConfig_def js_or_def alice_def

lemmas op_defs = AuthService_register_def AuthService_login_def AuthService_logout_def
  AuthService_refreshTokens_def AuthService_generateTokens_def AuthService_generateAccessToken_def
  AuthService_generateRefreshToken_def AuthService_updateRefreshToken_def
  UserService_createUser_def UserService_findByEmail_def UserService_findById_def
  UserService_findOne_def UserService_findByEmailWithPassword_def
  UserService_updateRefreshToken_def UserService_removeRefreshToken_def UserService_findAll_def
  Model_findOne_email_def Model_findById_def Document_save_def UserSchema_validate_def
  UserSchema_pre_save_def select_minus_password_def without_password_def comparePassword_def bcrypt_hash_def
  ConflictException_def UnauthorizedException_def Let_def

section \<open>Refresh after issuance\<close>

text \<open>Every issuance path (register, login, refresh) stores the token through
  \<open>AuthService_updateRefreshToken\<close>. Whatever the collection held before, presenting the
  very token that was just stored is refused.\<close>

lemma refresh_after_update_rejected:
  assumes "UserService_findOne st uid = Some u"
  shows "AuthService_refreshTokens svc rt uid t (AuthService_updateRefreshToken s1 s2 uid t st)
         = (Inl (UnauthorizedException ''Invalid refresh token''),
            AuthService_updateRefreshToken s1 s2 uid t st)"
proof -
  let ?f = "\<lambda>u. u\<lparr>refreshToken := Some (bcrypt_hash (bcrypt_hash t 10 s1) 10 s2)\<rparr>"
  have upd: "AuthService_updateRefreshToken s1 s2 uid t st = Model_findByIdAndUpdate st uid ?f"
    by (simp add: AuthService_updateRefreshToken_def UserService_updateRefreshToken_def)
  have "Model_findById (Model_findByIdAndUpdate st uid ?f) uid
        = map_option ?f (Model_findById st uid)"
    by (rule findById_update) simp
  with assms have
    "UserService_findOne (AuthService_updateRefreshToken s1 s2 uid t st) uid = Some (?f u)"
    by (simp add: upd UserService_findOne_def)
  then show ?thesis
    using double_hash_never_matches [of t 10 s1 10 s2]
    by (simp add: AuthService_refreshTokens_def js_truthy_hash)
qed

lemma login_token_rejected:
  assumes "AuthService_login svc rt d st = (Inr res, st')"
  shows "AuthService_refreshTokens svc rt' (pu_id (res_user res))
           (refreshToken' (res_tokens res)) st'
         = (Inl (UnauthorizedException ''Invalid refresh token''), st')"
proof -
  from assms obtain user where
    f: "UserService_findByEmailWithPassword st (dto_email d) = Some user"
    and r: "pu_id (res_user res) = oid user"
    and s: "st' = AuthService_updateRefreshToken (salts rt 0) (salts rt 1) (oid user)
              (refreshToken' (res_tokens res)) st"
    by (auto simp: AuthService_login_def Let_def split: option.splits if_splits)
  from f have "list_ex (\<lambda>v. oid v = oid user) st"
    by (auto simp: UserService_findByEmailWithPassword_def Model_findOne_email_def
        list_ex_iff find_Some_iff)
  then obtain u where "UserService_findOne st (oid user) = Some u"
    using find_None_list_ex [of "\<lambda>v. oid v = oid user" st]
    by (auto simp: UserService_findOne_def Model_findById_def)
  from refresh_after_update_rejected [OF this] show ?thesis
    by (simp add: r s)
qed

text \<open>
  C1. The claim: a user whose stored refresh-token hash was set by the issuance path for
  token T can refresh with T. The code stores the hash of the hash of T
  (\<open>AuthService_updateRefreshToken\<close> hashes, then \<open>UserService_updateRefreshToken\<close> hashes
  again) and compares T itself against it. The theorem: after every successful
  registration, refreshing with the refresh token that registration returned fails with
  Unauthorized ('Invalid refresh token') and leaves the collection as it was.
\<close>

theorem issued_refresh_token_is_rejected:
  assumes "AuthService_register svc rt d st = (Inr res, st')"
  shows "AuthService_refreshTokens svc rt' (pu_id (res_user res))
           (refreshToken' (res_tokens res)) st'
         = (Inl (UnauthorizedException ''Invalid refresh token''), st')"
proof -
  from register_success [OF assms] obtain u where
    u: "st' = st @ [u]" "oid u = new_ObjectId rt"
       "refreshToken u = Some (bcrypt_hash (bcrypt_hash (refreshToken' (res_tokens res)) 10
                                 (salts rt 1)) 10 (salts rt 2))"
       "pu_id (res_user res) = new_ObjectId rt"
       "\<not> list_ex (\<lambda>u. oid u = new_ObjectId rt \<or> email u = dto_email d) st"
    by blast
  from u(5) have "find (\<lambda>v. oid v = new_ObjectId rt) st = None"
    by (simp add: find_None_list_ex list_ex_disj)
  with u(1,2) have "UserService_findOne st' (new_ObjectId rt) = Some u"
    by (simp add: UserService_findOne_def Model_findById_def find_append)
  then show ?thesis
    using u(3,4) double_hash_never_matches
    by (simp add: AuthService_refreshTokens_def js_truthy_hash)
qed

theorem issued_refresh_token_is_rejected_witness:
  "AuthService_register sample_service sample_runtime
     \<lparr>dto_email = ''a@x.com'', dto_password = Str ''secret1''\<rparr> []
   = (Inr \<lparr>res_user = \<lparr>pu_id = 1, pu_email = ''a@x.com'', pu_role = USER\<rparr>,
           res_tokens = \<lparr>accessToken = Str ''jwt:a@x.com:default_access_token_secret:15m'',
                         refreshToken' = Str ''jwt:a@x.com:default_refresh_token_secret:7d''\<rparr>\<rparr>,
      [alice\<lparr>refreshToken := Some (BcryptHash 10 2 (BcryptHash 10 1
                 (Str ''jwt:a@x.com:default_refresh_token_secret:7d'')))\<rparr>])
   \<and> AuthService_refreshTokens sample_service sample_runtime 1
        (Str ''jwt:a@x.com:default_refresh_token_secret:7d'')
        [alice\<lparr>refreshToken := Some (BcryptHash 10 2 (BcryptHash 10 1
                 (Str ''jwt:a@x.com:default_refresh_token_secret:7d'')))\<rparr>]
     = (Inl (UnauthorizedException ''Invalid refresh token''),
        [alice\<lparr>refreshToken := Some (BcryptHash 10 2 (BcryptHash 10 1
                 (Str ''jwt:a@x.com:default_refresh_token_secret:7d'')))\<rparr>])"
proof -
  have reg: "AuthService_register sample_service sample_runtime
     \<lparr>dto_email = ''a@x.com'', dto_password = Str ''secret1''\<rparr> []
   = (Inr \<lparr>res_user = \<lparr>pu_id = 1, pu_email = ''a@x.com'', pu_role = USER\<rparr>,
           res_tokens = \<lparr>accessToken = Str ''jwt:a@x.com:default_access_token_secret:15m'',
                         refreshToken' = Str ''jwt:a@x.com:default_refresh_token_secret:7d''\<rparr>\<rparr>,
      [alice\<lparr>refreshToken := Some (BcryptHash 10 2 (BcryptHash 10 1
                 (Str ''jwt:a@x.com:default_refresh_token_secret:7d'')))\<rparr>])"
    by (simp add: op_defs sample_defs)
  show ?thesis
    using issued_refresh_token_is_rejected [OF reg, of sample_runtime] reg
    by simp
qed

section \<open>Lookups and the password field\<close>

text \<open>
  C2. The claim: \<open>findByEmail\<close> and \<open>findById\<close> return a projection without the password,
  and only \<open>findByEmailWithPassword\<close> returns the hash. \<open>findById\<close> does
  (\<open>UserWithoutPassword\<close> has no such field), but \<open>findByEmail\<close> runs the same query as
  \<open>findByEmailWithPassword\<close>, with no \<open>select('-password')\<close>: the theorem shows that the two
  return the same document for every collection and email, and that for the one-user
  collection \<open>[alice]\<close> that document carries the stored password hash.
\<close>

theorem findByEmail_returns_password_hash:
  "UserService_findByEmail st e = UserService_findByEmailWithPassword st e
   \<and> UserService_findByEmail [alice] ''a@x.com'' = Some alice
   \<and> password alice = Some (BcryptHash 10 0 (Str ''secret1''))"
  by (simp add: UserService_findByEmail_def UserService_findByEmailWithPassword_def
      Model_findOne_email_def alice_def)

section \<open>The access-token check\<close>

text \<open>
  C3. The claim: a valid access token whose subject is an inactive user (or no user any
  more) is rejected, and the failure reaches the client as Unauthorized in the envelope
  of the exception filter. The strategy does reject, but by throwing a plain \<open>Error\<close>
  where the local strategy and the service throw \<open>UnauthorizedException\<close>: the filter,
  registered for \<open>HttpException\<close> only, does not handle it, and the request ends with
  status 500 and no envelope.
\<close>

theorem inactive_user_is_plain_error:
  assumes "UserService_findOne st (sub p) = None
           \<or> (\<exists>u. UserService_findOne st (sub p) = Some u \<and> \<not> isActive u)"
  shows "AccessTokenStrategy_validate st p = Inl (JsError ''User not found or inactive'')
         \<and> HttpExceptionFilter_catch (JsError ''User not found or inactive'') url clock production
             = None
         \<and> exception_response (JsError ''User not found or inactive'') url clock production
             = \<lparr> status = 500, cookies = [], json = InternalServerError \<rparr>"
  using assms
  by (auto simp: AccessTokenStrategy_validate_def exception_response_def UserService_findById_def
      UserService_findOne_def select_minus_password_def without_password_def)

theorem inactive_user_is_plain_error_witness:
  "UserService_findOne [alice\<lparr>isActive := False\<rparr>] 1 = Some (alice\<lparr>isActive := False\<rparr>)
   \<and> \<not> isActive (alice\<lparr>isActive := False\<rparr>)
   \<and> AccessTokenStrategy_validate [alice\<lparr>isActive := False\<rparr>]
        \<lparr>sub = 1, pl_email = ''a@x.com'', pl_role = USER\<rparr>
       = Inl (JsError ''User not found or inactive'')
   \<and> HttpExceptionFilter_catch (JsError ''User not found or inactive'') ''/auth/profile'' 0 True
       = None
   \<and> status (exception_response (JsError ''User not found or inactive'') ''/auth/profile'' 0 True)
       = 500"
proof -
  have h: "UserService_findOne [alice\<lparr>isActive := False\<rparr>] 1 = Some (alice\<lparr>isActive := False\<rparr>)
           \<and> \<not> isActive (alice\<lparr>isActive := False\<rparr>)"
    by (simp add: op_defs sample_defs)
  show ?thesis
    using h inactive_user_is_plain_error
      [of "[alice\<lparr>isActive := False\<rparr>]" "\<lparr>sub = 1, pl_email = ''a@x.com'', pl_role = USER\<rparr>"
          "''/auth/profile''" 0 True]
    by simp
qed

section \<open>Registration\<close>

lemma register_conflict:
  assumes "UserService_findByEmail st (dto_email d) = Some u"
  shows "AuthService_register svc rt d st
         = (Inl (ConflictException ''User with this email already exists''), st)"
  using assms by (simp add: AuthService_register_def)

text \<open>Registration with an empty email or an empty password stores nothing: the document
  fails the schema's validation.\<close>

lemma register_invalid:
  assumes "UserService_findByEmail st (dto_email d) = None"
    and "dto_email d = [] \<or> dto_password d = Str []"
  shows "AuthService_register svc rt d st = (Inl (ValidationError ''User validation failed''), st)"
  using assms
  by (auto simp: AuthService_register_def UserService_findByEmail_def UserService_createUser_def
      Document_save_def UserSchema_validate_def)

lemma register_creates:
  assumes "UserService_findByEmail st (dto_email d) = None"
    and "dto_email d \<noteq> []" and "dto_password d \<noteq> Str []"
    and "\<not> list_ex (\<lambda>u. oid u = new_ObjectId rt) st"
  shows "\<exists>res u. AuthService_register svc rt d st = (Inr res, st @ [u])
           \<and> email u = dto_email d \<and> oid u = new_ObjectId rt"
proof -
  from assms(1) have f: "find (\<lambda>u. email u = dto_email d) st = None"
    by (simp add: UserService_findByEmail_def Model_findOne_email_def)
  then have e: "\<not> list_ex (\<lambda>u. email u = dto_email d) st"
    by (simp add: find_None_list_ex)
  show ?thesis
    using f e assms(2,3,4)
    by (simp add: AuthService_register_def UserService_findByEmail_def UserService_createUser_def
        Model_findOne_email_def Document_save_def UserSchema_validate_def js_truthy_Some
        UserSchema_pre_save_def without_password_def
        AuthService_updateRefreshToken_def UserService_updateRefreshToken_def Let_def
        update_append_fresh list_ex_disj)
qed

text \<open>
  C4. When a record with email e exists, register(e, p) fails with Conflict and returns the
  collection untouched: no record is added and the existing one is unchanged. When none
  exists, register(e, p) succeeds and the collection afterwards is the old one followed
  by one new document with that email, the only document with that email. The second
  half holds for an email and a password that pass the schema's required validators
  (neither is the empty string, which the DTO validation in front of the service
  guarantees) and for an ObjectId of the new document that is not yet in the collection
  (which the driver guarantees).
\<close>

theorem register_conflict_or_one_new_record:
  "(UserService_findByEmail st (dto_email d) \<noteq> None \<longrightarrow>
      AuthService_register svc rt d st
        = (Inl (ConflictException ''User with this email already exists''), st))
   \<and> (UserService_findByEmail st (dto_email d) = None
        \<and> dto_email d \<noteq> [] \<and> dto_password d \<noteq> Str []
        \<and> \<not> list_ex (\<lambda>u. oid u = new_ObjectId rt) st \<longrightarrow>
      (\<exists>res u. AuthService_register svc rt d st = (Inr res, st @ [u])
         \<and> email u = dto_email d
         \<and> length (filter (\<lambda>v. email v = dto_email d) (st @ [u])) = 1))"
proof (intro conjI impI)
  assume "UserService_findByEmail st (dto_email d) \<noteq> None"
  then show "AuthService_register svc rt d st
        = (Inl (ConflictException ''User with this email already exists''), st)"
    using register_conflict by auto
next
  assume a: "UserService_findByEmail st (dto_email d) = None
        \<and> dto_email d \<noteq> [] \<and> dto_password d \<noteq> Str []
        \<and> \<not> list_ex (\<lambda>u. oid u = new_ObjectId rt) st"
  then obtain res u where r: "AuthService_register svc rt d st = (Inr res, st @ [u])"
    "email u = dto_email d"
    using register_creates [of st d rt svc] by blast
  from a have "\<not> list_ex (\<lambda>v. email v = dto_email d) st"
    by (simp add: UserService_findByEmail_def Model_findOne_email_def find_None_list_ex)
  then have "filter (\<lambda>v. email v = dto_email d) st = []"
    by (induction st) auto
  with r show "\<exists>res u. AuthService_register svc rt d st = (Inr res, st @ [u])
         \<and> email u = dto_email d
         \<and> length (filter (\<lambda>v. email v = dto_email d) (st @ [u])) = 1"
    by auto
qed

theorem register_conflict_or_one_new_record_witness:
  "UserService_findByEmail [alice] ''a@x.com'' \<noteq> None
   \<and> AuthService_register sample_service sample_runtime
       \<lparr>dto_email = ''a@x.com'', dto_password = Str ''other''\<rparr> [alice]
      = (Inl (ConflictException ''User with this email already exists''), [alice])
   \<and> UserService_findByEmail [] ''a@x.com'' = None
   \<and> ''a@x.com'' \<noteq> [] \<and> Str ''secret1'' \<noteq> Str []
   \<and> \<not> list_ex (\<lambda>u. oid u = new_ObjectId sample_runtime) []
   \<and> (\<exists>res u. AuthService_register sample_service sample_runtime
                 \<lparr>dto_email = ''a@x.com'', dto_password = Str ''secret1''\<rparr> [] = (Inr res, [] @ [u])
         \<and> email u = ''a@x.com''
         \<and> length (filter (\<lambda>v. email v = ''a@x.com'') ([] @ [u])) = 1)"
proof -
  have h1: "UserService_findByEmail [alice] ''a@x.com'' \<noteq> None"
    by (simp add: op_defs sample_defs)
  have h2: "UserService_findByEmail [] ''a@x.com'' = None
            \<and> \<not> list_ex (\<lambda>u. oid u = new_ObjectId sample_runtime) []"
    by (simp add: op_defs sample_defs)
  show ?thesis
    using h1 h2
      register_conflict_or_one_new_record
        [of "[alice]" "\<lparr>dto_email = ''a@x.com'', dto_password = Str ''other''\<rparr>"
            sample_service sample_runtime]
      register_conflict_or_one_new_record
        [of "[]" "\<lparr>dto_email = ''a@x.com'', dto_password = Str ''secret1''\<rparr>"
            sample_service sample_runtime]
    by simp
qed

section \<open>The stored password\<close>

text \<open>
  C5, as the claim states it: after a successful register, \<open>comparePassword\<close> is true for
  the original plaintext and false for any other string. It fails for a password longer
  than 72 bytes: registering with \<open>long_password_1\<close> stores the hash of its first 72 bytes,
  and \<open>comparePassword\<close> accepts \<open>long_password_2\<close>, a different string.
\<close>

theorem comparePassword_other_string_counterexample:
  "AuthService_register sample_service sample_runtime
     \<lparr>dto_email = ''a@x.com'', dto_password = long_password_1\<rparr> []
   = (Inr \<lparr>res_user = \<lparr>pu_id = 1, pu_email = ''a@x.com'', pu_role = USER\<rparr>,
           res_tokens = \<lparr>accessToken = Str ''jwt:a@x.com:default_access_token_secret:15m'',
                         refreshToken' = Str ''jwt:a@x.com:default_refresh_token_secret:7d''\<rparr>\<rparr>,
      [long_password_user])
   \<and> UserService_findByEmailWithPassword [long_password_user] ''a@x.com'' = Some long_password_user
   \<and> long_password_2 \<noteq> long_password_1
   \<and> comparePassword long_password_user long_password_2"
  by (simp add: op_defs sample_defs long_password_1_def long_password_2_def long_password_user_def)

text \<open>
  C5, amended. After every successful register(email, password) the password field of the
  created record is the bcrypt hash (cost 10) of the plaintext and is not the plaintext;
  \<open>comparePassword\<close> on that record is true for the original plaintext, and for a candidate
  in general it is true exactly when bcrypt reads the candidate as it read the plaintext,
  that is, when the two agree on their first 72 bytes.
\<close>

theorem stored_password_is_hash:
  assumes "AuthService_register svc rt d st = (Inr res, st')"
  shows "\<exists>u. UserService_findByEmailWithPassword st' (dto_email d) = Some u
           \<and> password u = Some (bcrypt_hash (dto_password d) 10 (salts rt 0))
           \<and> password u \<noteq> Some (dto_password d)
           \<and> comparePassword u (dto_password d)
           \<and> (\<forall>c. comparePassword u c = (bcrypt_input c = bcrypt_input (dto_password d)))"
proof -
  from register_success [OF assms] obtain u where
    u: "st' = st @ [u]" "email u = dto_email d"
       "password u = Some (bcrypt_hash (dto_password d) 10 (salts rt 0))"
       "\<not> list_ex (\<lambda>u. oid u = new_ObjectId rt \<or> email u = dto_email d) st"
    by blast
  from u(4) have "find (\<lambda>v. email v = dto_email d) st = None"
    by (simp add: find_None_list_ex list_ex_disj)
  with u(1,2) have "UserService_findByEmailWithPassword st' (dto_email d) = Some u"
    by (simp add: UserService_findByEmailWithPassword_def Model_findOne_email_def find_append)
  moreover have "password u \<noteq> Some (dto_password d)"
    using u(3) hash_neq_plain by simp
  moreover have "\<forall>c. comparePassword u c = (bcrypt_input c = bcrypt_input (dto_password d))"
    using u(3) by (simp add: comparePassword_def compare_hash_iff)
  ultimately show ?thesis using u(3) by simp
qed

theorem stored_password_is_hash_witness:
  "AuthService_register sample_service sample_runtime
     \<lparr>dto_email = ''a@x.com'', dto_password = Str ''secret1''\<rparr> []
   = (Inr \<lparr>res_user = \<lparr>pu_id = 1, pu_email = ''a@x.com'', pu_role = USER\<rparr>,
           res_tokens = \<lparr>accessToken = Str ''jwt:a@x.com:default_access_token_secret:15m'',
                         refreshToken' = Str ''jwt:a@x.com:default_refresh_token_secret:7d''\<rparr>\<rparr>,
      [alice\<lparr>refreshToken := Some (BcryptHash 10 2 (BcryptHash 10 1
                 (Str ''jwt:a@x.com:default_refresh_token_secret:7d'')))\<rparr>])
   \<and> (\<exists>u. UserService_findByEmailWithPassword
              [alice\<lparr>refreshToken := Some (BcryptHash 10 2 (BcryptHash 10 1
                 (Str ''jwt:a@x.com:default_refresh_token_secret:7d'')))\<rparr>] ''a@x.com'' = Some u
           \<and> password u = Some (BcryptHash 10 0 (Str ''secret1''))
           \<and> password u \<noteq> Some (Str ''secret1'')
           \<and> comparePassword u (Str ''secret1'')
           \<and> \<not> comparePassword u (Str ''wrong''))"
proof -
  have reg: "AuthService_register sample_service sample_runtime
     \<lparr>dto_email = ''a@x.com'', dto_password = Str ''secret1''\<rparr> []
   = (Inr \<lparr>res_user = \<lparr>pu_id = 1, pu_email = ''a@x.com'', pu_role = USER\<rparr>,
           res_tokens = \<lparr>accessToken = Str ''jwt:a@x.com:default_access_token_secret:15m'',
                         refreshToken' = Str ''jwt:a@x.com:default_refresh_token_secret:7d''\<rparr>\<rparr>,
      [alice\<lparr>refreshToken := Some (BcryptHash 10 2 (BcryptHash 10 1
                 (Str ''jwt:a@x.com:default_refresh_token_secret:7d'')))\<rparr>])"
    by (simp add: op_defs sample_defs)
  show ?thesis
    using stored_password_is_hash [OF reg] reg
    by (auto simp: bcrypt_hash_def sample_runtime_def)
qed

section \<open>Login\<close>

text \<open>
  C6. When no record has the email, or the record's stored hash does not match the
  password, login fails with Unauthorized ('Invalid credentials') and the collection, and
  with it the stored refresh-token hash, is unchanged; the login endpoint answers 401,
  sets no cookie and leaves the collection unchanged as well.
\<close>

theorem failed_login_changes_nothing:
  assumes "UserService_findByEmailWithPassword st (dto_email d) = None
           \<or> (\<exists>u. UserService_findByEmailWithPassword st (dto_email d) = Some u
                 \<and> \<not> comparePassword u (dto_password d))"
  shows "AuthService_login svc rt d st = (Inl (UnauthorizedException ''Invalid credentials''), st)
         \<and> snd (AuthController_login svc rt production d st) = st
         \<and> status (fst (AuthController_login svc rt production d st)) = 401
         \<and> cookies (fst (AuthController_login svc rt production d st)) = []"
  using assms
  by (auto simp: AuthService_login_def AuthController_login_def LocalStrategy_validate_def
      exception_response_def UnauthorizedException_def)

theorem failed_login_changes_nothing_witness:
  "UserService_findByEmailWithPassword [] ''a@x.com'' = None
   \<and> AuthService_login sample_service sample_runtime
        \<lparr>dto_email = ''a@x.com'', dto_password = Str ''secret1''\<rparr> []
       = (Inl (UnauthorizedException ''Invalid credentials''), [])
   \<and> UserService_findByEmailWithPassword [alice] ''a@x.com'' = Some alice
   \<and> \<not> comparePassword alice (Str ''wrong'')
   \<and> AuthService_login sample_service sample_runtime
        \<lparr>dto_email = ''a@x.com'', dto_password = Str ''wrong''\<rparr> [alice]
       = (Inl (UnauthorizedException ''Invalid credentials''), [alice])
   \<and> AuthController_login sample_service sample_runtime True
        \<lparr>dto_email = ''a@x.com'', dto_password = Str ''wrong''\<rparr> [alice]
       = (\<lparr>status = 401, cookies = [],
           json = Envelope \<lparr>statusCode = 401, timestamp = 0, path = ''/auth/login'',
                             message = ''Invalid credentials'', error = None\<rparr>\<rparr>, [alice])"
proof -
  have h1: "UserService_findByEmailWithPassword [] ''a@x.com'' = None"
    by (simp add: op_defs)
  have h2: "UserService_findByEmailWithPassword [alice] ''a@x.com'' = Some alice
            \<and> \<not> comparePassword alice (Str ''wrong'')"
    by (simp add: op_defs sample_defs)
  have h3: "AuthController_login sample_service sample_runtime True
        \<lparr>dto_email = ''a@x.com'', dto_password = Str ''wrong''\<rparr> [alice]
       = (\<lparr>status = 401, cookies = [],
           json = Envelope \<lparr>statusCode = 401, timestamp = 0, path = ''/auth/login'',
                             message = ''Invalid credentials'', error = None\<rparr>\<rparr>, [alice])"
    by (simp add: op_defs sample_defs AuthController_login_def LocalStrategy_validate_def
        exception_response_def)
  show ?thesis
    using h1 h2 h3
      failed_login_changes_nothing
        [of "[]" "\<lparr>dto_email = ''a@x.com'', dto_password = Str ''secret1''\<rparr>"
            sample_service sample_runtime True]
      failed_login_changes_nothing
        [of "[alice]" "\<lparr>dto_email = ''a@x.com'', dto_password = Str ''wrong''\<rparr>"
            sample_service sample_runtime True]
    by simp
qed

section \<open>Logout and refresh\<close>

lemma findOne_after_remove:
  "UserService_findOne (UserService_removeRefreshToken uid st) uid
   = map_option (\<lambda>u. u\<lparr>refreshToken := None\<rparr>) (UserService_findOne st uid)"
  unfolding UserService_findOne_def UserService_removeRefreshToken_def
  by (rule findById_update) simp

text \<open>The service operation: in every state in which the user has no stored refresh-token
  hash (the field is absent, null or empty; a missing user is refused the same way),
  \<open>refreshTokens\<close> fails with Unauthorized ('Access denied') whatever token is presented,
  and the collection is unchanged. So it does in the state a logout leaves.\<close>

lemma refresh_without_stored_hash_fails:
  assumes "UserService_findOne st uid = None
      \<or> (\<exists>u. UserService_findOne st uid = Some u \<and> \<not> js_truthy (refreshToken u))"
  shows "AuthService_refreshTokens svc rt uid t st
        = (Inl (UnauthorizedException ''Access denied''), st)"
  using assms by (auto simp: AuthService_refreshTokens_def)

lemma refresh_after_logout_fails:
  "AuthService_refreshTokens svc rt uid t (snd (AuthService_logout uid st))
     = (Inl (UnauthorizedException ''Access denied''), snd (AuthService_logout uid st))"
  by (simp add: AuthService_refreshTokens_def AuthService_logout_def findOne_after_remove
      split: option.splits)

text \<open>
  C7. The claim: whenever the user has no stored refresh-token hash, and in particular
  after logout, refresh fails with Unauthorized. The service operation does (the two
  lemmas above), but on \<open>POST /auth/refresh\<close> the refresh-token strategy runs before it,
  and for an active user without a stored hash it rejects by throwing a plain \<open>Error\<close>
  ('Refresh token not found') where the service throws \<open>UnauthorizedException\<close>. The
  filter, registered for \<open>HttpException\<close> only, does not handle it: the request ends with
  status 500 and the service's own check is never reached. The theorem: for every
  active stored user, in a state without a stored hash and in the state logout leaves,
  the strategy returns that plain error, which the exception layer answers with 500,
  while the service operation on the same state fails with Unauthorized.
\<close>

theorem logged_out_refresh_is_plain_error:
  assumes "UserService_findOne st uid = Some u" and "isActive u"
  shows "(\<not> js_truthy (refreshToken u) \<longrightarrow>
            RefreshTokenStrategy_validate st \<lparr>sub = uid, pl_email = e, pl_role = r\<rparr>
              = Inl (JsError ''Refresh token not found'')
            \<and> AuthService_refreshTokens svc rt uid t st
                = (Inl (UnauthorizedException ''Access denied''), st))
         \<and> RefreshTokenStrategy_validate (snd (AuthService_logout uid st))
               \<lparr>sub = uid, pl_email = e, pl_role = r\<rparr>
             = Inl (JsError ''Refresh token not found'')
         \<and> AuthService_refreshTokens svc rt uid t (snd (AuthService_logout uid st))
             = (Inl (UnauthorizedException ''Access denied''), snd (AuthService_logout uid st))
         \<and> HttpExceptionFilter_catch (JsError ''Refresh token not found'') url clock production
             = None
         \<and> exception_response (JsError ''Refresh token not found'') url clock production
             = \<lparr> status = 500, cookies = [], json = InternalServerError \<rparr>"
proof -
  have a: "\<not> js_truthy (refreshToken u) \<longrightarrow>
            RefreshTokenStrategy_validate st \<lparr>sub = uid, pl_email = e, pl_role = r\<rparr>
              = Inl (JsError ''Refresh token not found'')
            \<and> AuthService_refreshTokens svc rt uid t st
                = (Inl (UnauthorizedException ''Access denied''), st)"
    using assms
    by (simp add: RefreshTokenStrategy_validate_def AuthService_refreshTokens_def)
  have "UserService_findOne (snd (AuthService_logout uid st)) uid
          = Some (u\<lparr>refreshToken := None\<rparr>)"
    using assms(1) by (simp add: AuthService_logout_def findOne_after_remove)
  then have b: "RefreshTokenStrategy_validate (snd (AuthService_logout uid st))
               \<lparr>sub = uid, pl_email = e, pl_role = r\<rparr>
             = Inl (JsError ''Refresh token not found'')"
    using assms(2) by (simp add: RefreshTokenStrategy_validate_def)
  have c: "exception_response (JsError ''Refresh token not found'') url clock production
             = \<lparr> status = 500, cookies = [], json = InternalServerError \<rparr>"
    by (simp add: exception_response_def)
  from a b c refresh_after_logout_fails [of svc rt uid t st] show ?thesis
    by simp
qed

theorem logged_out_refresh_is_plain_error_witness:
  "UserService_findOne [alice] 1 = Some alice \<and> isActive alice
   \<and> \<not> js_truthy (refreshToken alice)
   \<and> RefreshTokenStrategy_validate [alice] \<lparr>sub = 1, pl_email = ''a@x.com'', pl_role = USER\<rparr>
       = Inl (JsError ''Refresh token not found'')
   \<and> AuthService_refreshTokens sample_service sample_runtime 1
        (Str ''jwt:a@x.com:default_refresh_token_secret:7d'') [alice]
       = (Inl (UnauthorizedException ''Access denied''), [alice])
   \<and> UserService_findOne [alice_logged_in] 1 = Some alice_logged_in \<and> isActive alice_logged_in
   \<and> snd (AuthService_logout 1 [alice_logged_in]) = [alice]
   \<and> RefreshTokenStrategy_validate (snd (AuthService_logout 1 [alice_logged_in]))
        \<lparr>sub = 1, pl_email = ''a@x.com'', pl_role = USER\<rparr>
       = Inl (JsError ''Refresh token not found'')
   \<and> AuthService_refreshTokens sample_service sample_runtime 1
        (Str ''jwt:a@x.com:default_refresh_token_secret:7d'')
        (snd (AuthService_logout 1 [alice_logged_in]))
       = (Inl (UnauthorizedException ''Access denied''), [alice])
   \<and> status (exception_response (JsError ''Refresh token not found'') ''/auth/refresh'' 0 True)
       = 500"
proof -
  have h1: "UserService_findOne [alice] 1 = Some alice \<and> isActive alice
            \<and> \<not> js_truthy (refreshToken alice)"
    by (simp add: op_defs sample_defs)
  have h2: "UserService_findOne [alice_logged_in] 1 = Some alice_logged_in
            \<and> isActive alice_logged_in"
    by (simp add: op_defs sample_defs alice_logged_in_def)
  have l: "snd (AuthService_logout 1 [alice_logged_in]) = [alice]"
    by (simp add: op_defs sample_defs alice_logged_in_def)
  show ?thesis
    using h1 h2 l
      logged_out_refresh_is_plain_error
        [of "[alice]" 1 alice "''a@x.com''" USER sample_service sample_runtime
            "Str ''jwt:a@x.com:default_refresh_token_secret:7d''" "''/auth/refresh''" 0 True]
      logged_out_refresh_is_plain_error
        [of "[alice_logged_in]" 1 alice_logged_in "''a@x.com''" USER sample_service
            sample_runtime "Str ''jwt:a@x.com:default_refresh_token_secret:7d''"
            "''/auth/refresh''" 0 True]
    by simp
qed

text \<open>
  C8. logout(userId) always succeeds, leaves the user's refresh-token field empty and all
  else of the record as it was, and is idempotent: the collection after two logouts is
  the collection after one, and the second logout succeeds as the first did.
\<close>

theorem logout_clears_and_is_idempotent:
  "fst (AuthService_logout uid st) = Inr ''Logged out successfully''
   \<and> UserService_findOne (snd (AuthService_logout uid st)) uid
       = map_option (\<lambda>u. u\<lparr>refreshToken := None\<rparr>) (UserService_findOne st uid)
   \<and> snd (AuthService_logout uid (snd (AuthService_logout uid st)))
       = snd (AuthService_logout uid st)
   \<and> fst (AuthService_logout uid (snd (AuthService_logout uid st)))
       = Inr ''Logged out successfully''"
proof -
  have "Model_findByIdAndUpdate (Model_findByIdAndUpdate st uid (\<lambda>u. u\<lparr>refreshToken := None\<rparr>))
          uid (\<lambda>u. u\<lparr>refreshToken := None\<rparr>)
        = Model_findByIdAndUpdate st uid (\<lambda>u. u\<lparr>refreshToken := None\<rparr>)"
    by (rule update_idem) simp_all
  then have idem: "snd (AuthService_logout uid (snd (AuthService_logout uid st)))
       = snd (AuthService_logout uid st)"
    by (simp add: AuthService_logout_def UserService_removeRefreshToken_def)
  have cleared: "UserService_findOne (snd (AuthService_logout uid st)) uid
       = map_option (\<lambda>u. u\<lparr>refreshToken := None\<rparr>) (UserService_findOne st uid)"
    by (simp add: AuthService_logout_def findOne_after_remove)
  from idem cleared show ?thesis
    by (simp add: AuthService_logout_def)
qed

section \<open>Token issuance\<close>

text \<open>
  C9, as the claim states it: no single signing key is used for both token kinds. With
  both \<open>ACCESS_TOKEN_SECRET\<close> and \<open>REFRESH_TOKEN_SECRET\<close> set to the same string, the
  configuration holds one key twice and both tokens are signed with it.
\<close>

theorem one_key_for_both_tokens_counterexample:
  "accessTokenSecret (authConfig shared_secret_env) = refreshTokenSecret (authConfig shared_secret_env)
   \<and> AuthService_generateTokens
        \<lparr>jwtService = sample_signAsync, configService = authConfig shared_secret_env\<rparr>
        0 1 ''a@x.com'' USER
      = \<lparr>accessToken = sample_signAsync \<lparr>sub = 1, pl_email = ''a@x.com'', pl_role = USER\<rparr>
                           \<lparr>secret = ''k'', expiresIn = ''15m''\<rparr> 0,
          refreshToken' = sample_signAsync \<lparr>sub = 1, pl_email = ''a@x.com'', pl_role = USER\<rparr>
                           \<lparr>secret = ''k'', expiresIn = ''7d''\<rparr> 0\<rparr>"
  by (simp add: op_defs sample_defs shared_secret_env_def)

text \<open>
  C9, amended. At every issuance the access token is signed with the \<open>accessTokenSecret\<close>
  and access expiration of the configuration and the refresh token with the
  \<open>refreshTokenSecret\<close> and refresh expiration, both over the same payload
  \<open>{sub, email, role}\<close>. The two secrets are separate configuration entries: each is the
  value of its own environment variable when that is set to a non-empty string, and its
  own default otherwise. Hence the two keys differ when neither variable is set (the
  defaults differ), and when both are set to non-empty strings they differ exactly when
  those strings differ.
\<close>

theorem tokens_signed_with_their_own_entries:
  "AuthService_generateTokens svc clock uid e r
     = \<lparr>accessToken = jwtService svc \<lparr>sub = uid, pl_email = e, pl_role = r\<rparr>
                          \<lparr>secret = accessTokenSecret (configService svc),
                            expiresIn = js_or (Some (accessTokenExpiration (configService svc))) ''15m''\<rparr>
                          clock,
         refreshToken' = jwtService svc \<lparr>sub = uid, pl_email = e, pl_role = r\<rparr>
                          \<lparr>secret = refreshTokenSecret (configService svc),
                            expiresIn = js_or (Some (refreshTokenExpiration (configService svc))) ''7d''\<rparr>
                          clock\<rparr>
   \<and> (ACCESS_TOKEN_SECRET env = Some a \<and> a \<noteq> [] \<longrightarrow>
        accessTokenSecret (authConfig env) = a)
   \<and> (ACCESS_TOKEN_SECRET env = None \<or> ACCESS_TOKEN_SECRET env = Some [] \<longrightarrow>
        accessTokenSecret (authConfig env) = ''default_access_token_secret'')
   \<and> (REFRESH_TOKEN_SECRET env = Some b \<and> b \<noteq> [] \<longrightarrow>
        refreshTokenSecret (authConfig env) = b)
   \<and> (REFRESH_TOKEN_SECRET env = None \<or> REFRESH_TOKEN_SECRET env = Some [] \<longrightarrow>
        refreshTokenSecret (authConfig env) = ''default_refresh_token_secret'')
   \<and> (ACCESS_TOKEN_SECRET env = None \<and> REFRESH_TOKEN_SECRET env = None \<longrightarrow>
        accessTokenSecret (authConfig env) \<noteq> refreshTokenSecret (authConfig env))
   \<and> (ACCESS_TOKEN_SECRET env = Some a \<and> REFRESH_TOKEN_SECRET env = Some b
        \<and> a \<noteq> [] \<and> b \<noteq> [] \<longrightarrow>
        (accessTokenSecret (authConfig env) \<noteq> refreshTokenSecret (authConfig env)) = (a \<noteq> b))"
  by (auto simp: AuthService_generateTokens_def AuthService_generateAccessToken_def
      AuthService_generateRefreshToken_def authConfig_def js_or_def)

theorem tokens_signed_with_their_own_entries_witness:
  "AuthService_generateTokens sample_service 0 1 ''a@x.com'' USER
      = \<lparr>accessToken = Str ''jwt:a@x.com:default_access_token_secret:15m'',
         refreshToken' = Str ''jwt:a@x.com:default_refresh_token_secret:7d''\<rparr>
   \<and> ACCESS_TOKEN_SECRET sample_env = None \<and> REFRESH_TOKEN_SECRET sample_env = None
   \<and> accessTokenSecret (authConfig sample_env) = ''default_access_token_secret''
   \<and> refreshTokenSecret (authConfig sample_env) = ''default_refresh_token_secret''
   \<and> accessTokenSecret (authConfig sample_env) \<noteq> refreshTokenSecret (authConfig sample_env)
   \<and> ACCESS_TOKEN_SECRET shared_secret_env = Some ''k''
   \<and> REFRESH_TOKEN_SECRET shared_secret_env = Some ''k''
   \<and> accessTokenSecret (authConfig shared_secret_env) = ''k''
   \<and> refreshTokenSecret (authConfig shared_secret_env) = ''k''
   \<and> ACCESS_TOKEN_SECRET crossed_default_env = Some ''default_refresh_token_secret''
   \<and> REFRESH_TOKEN_SECRET crossed_default_env = None
   \<and> accessTokenSecret (authConfig crossed_default_env) = ''default_refresh_token_secret''
   \<and> refreshTokenSecret (authConfig crossed_default_env) = ''default_refresh_token_secret''
   \<and> ACCESS_TOKEN_SECRET empty_secret_env = Some []
   \<and> REFRESH_TOKEN_SECRET empty_secret_env = Some []
   \<and> accessTokenSecret (authConfig empty_secret_env) = ''default_access_token_secret''
   \<and> refreshTokenSecret (authConfig empty_secret_env) = ''default_refresh_token_secret''"
proof -
  have h1: "ACCESS_TOKEN_SECRET sample_env = None \<and> REFRESH_TOKEN_SECRET sample_env = None"
    by (simp add: sample_env_def)
  have h2: "ACCESS_TOKEN_SECRET shared_secret_env = Some ''k''
            \<and> REFRESH_TOKEN_SECRET shared_secret_env = Some ''k'' \<and> ''k'' \<noteq> []"
    by (simp add: shared_secret_env_def)
  have h3: "ACCESS_TOKEN_SECRET crossed_default_env = Some ''default_refresh_token_secret''
            \<and> REFRESH_TOKEN_SECRET crossed_default_env = None
            \<and> ''default_refresh_token_secret'' \<noteq> []"
    by (simp add: crossed_default_env_def)
  have h4: "ACCESS_TOKEN_SECRET empty_secret_env = Some []
            \<and> REFRESH_TOKEN_SECRET empty_secret_env = Some []"
    by (simp add: empty_secret_env_def)
  have g: "AuthService_generateTokens sample_service 0 1 ''a@x.com'' USER
      = \<lparr>accessToken = Str ''jwt:a@x.com:default_access_token_secret:15m'',
         refreshToken' = Str ''jwt:a@x.com:default_refresh_token_secret:7d''\<rparr>"
    using tokens_signed_with_their_own_entries
        [of sample_service 0 1 "''a@x.com''" USER sample_env "''k''" "''k''"]
    by (simp add: sample_defs)
  show ?thesis
    using g h1 h2 h3 h4
      tokens_signed_with_their_own_entries
        [of sample_service 0 1 "''a@x.com''" USER sample_env "''k''" "''k''"]
      tokens_signed_with_their_own_entries
        [of sample_service 0 1 "''a@x.com''" USER shared_secret_env "''k''" "''k''"]
      tokens_signed_with_their_own_entries
        [of sample_service 0 1 "''a@x.com''" USER crossed_default_env
            "''default_refresh_token_secret''" "''k''"]
      tokens_signed_with_their_own_entries
        [of sample_service 0 1 "''a@x.com''" USER empty_secret_env "''k''" "''k''"]
    by simp
qed

section \<open>Projections\<close>

text \<open>
  C10. For every stored record, \<open>findById\<close> returns its id, email, role, active flag and
  refresh-token field unchanged (only the password is gone), \<open>findAll\<close> returns that
  projection of every record, and \<open>createUser\<close> returns that projection of the document it
  appended: the stored refresh-token hash is part of every one of these views.
\<close>

theorem projections_keep_refresh_token:
  "(\<forall>u. UserService_findOne st i = Some u \<longrightarrow>
      UserService_findById st i
        = Some \<lparr>v_id = oid u, v_email = email u, v_role = role u, v_isActive = isActive u,
                v_refreshToken = refreshToken u\<rparr>)
   \<and> UserService_findAll st
       = map (\<lambda>u. \<lparr>v_id = oid u, v_email = email u, v_role = role u, v_isActive = isActive u,
                    v_refreshToken = refreshToken u\<rparr>) st
   \<and> (\<forall>v st'. UserService_createUser salt new_id dto st = (Inr v, st') \<longrightarrow>
        (\<exists>u. st' = st @ [u]
           \<and> v = \<lparr>v_id = oid u, v_email = email u, v_role = role u, v_isActive = isActive u,
                   v_refreshToken = refreshToken u\<rparr>))"
  by (auto simp: UserService_findById_def UserService_findOne_def UserService_findAll_def
      UserService_createUser_def Document_save_def without_password_def select_minus_password_def
      Let_def split: option.splits if_splits)

theorem projections_keep_refresh_token_witness:
  "UserService_findOne [alice_logged_in] 1 = Some alice_logged_in
   \<and> UserService_findById [alice_logged_in] 1
       = Some \<lparr>v_id = 1, v_email = ''a@x.com'', v_role = USER, v_isActive = True,
               v_refreshToken = Some (BcryptHash 10 2 (BcryptHash 10 1
                 (Str ''jwt:a@x.com:default_refresh_token_secret:7d'')))\<rparr>
   \<and> UserService_findAll [alice_logged_in]
       = [\<lparr>v_id = 1, v_email = ''a@x.com'', v_role = USER, v_isActive = True,
           v_refreshToken = Some (BcryptHash 10 2 (BcryptHash 10 1
                 (Str ''jwt:a@x.com:default_refresh_token_secret:7d'')))\<rparr>]
   \<and> UserService_createUser 0 1
        \<lparr>cu_email = ''a@x.com'', cu_password = Str ''secret1'', cu_role = None\<rparr> []
       = (Inr \<lparr>v_id = 1, v_email = ''a@x.com'', v_role = USER, v_isActive = True,
               v_refreshToken = None\<rparr>, [alice])"
proof -
  have h1: "UserService_findOne [alice_logged_in] 1 = Some alice_logged_in"
    by (simp add: op_defs sample_defs alice_logged_in_def)
  have h2: "UserService_createUser 0 1
        \<lparr>cu_email = ''a@x.com'', cu_password = Str ''secret1'', cu_role = None\<rparr> []
       = (Inr \<lparr>v_id = 1, v_email = ''a@x.com'', v_role = USER, v_isActive = True,
               v_refreshToken = None\<rparr>, [alice])"
    by (simp add: op_defs sample_defs)
  show ?thesis
    using h1 h2
      projections_keep_refresh_token
        [of "[alice_logged_in]" 1 0 1
            "\<lparr>cu_email = ''a@x.com'', cu_password = Str ''secret1'', cu_role = None\<rparr>"]
    by (simp add: alice_logged_in_def alice_def)
qed

end
